theory Spec2Isabelle
  imports Complex_Main
begin

section \<open>Values and strings of the extraction engine\<close>

text \<open>
  The engine of \<^verbatim>\<open>backend/parse_ifc.py\<close> reads an already parsed model graph. Python strings
  are modelled as \<^typ>\<open>string\<close>; \<^verbatim>\<open>str.lower\<close> acts on the ASCII letters, which is where the
  curated key-sets live. A Python \<^verbatim>\<open>float\<close> is modelled by the real number it denotes, and
  \<^verbatim>\<open>float(i)\<close> of an integer by \<^term>\<open>of_int i\<close> (the integers the model library hands out are
  machine integers, far inside the range where the conversion can overflow).
\<close>

definition ascii_uppercase :: string where
  "ascii_uppercase = ''ABCDEFGHIJKLMNOPQRSTUVWXYZ''"

definition ascii_lowercase :: string where
  "ascii_lowercase = ''abcdefghijklmnopqrstuvwxyz''"

definition lower_char :: "char \<Rightarrow> char" where
  "lower_char c =
     (case map_of (zip ascii_uppercase ascii_lowercase) c of Some d \<Rightarrow> d | None \<Rightarrow> c)"


definition py_lower :: "string \<Rightarrow> string" where
  "py_lower s = map lower_char s"


text \<open>\<^verbatim>\<open>s.replace(c, "")\<close> for a one-character \<^verbatim>\<open>c\<close>: every occurrence is removed.\<close>

definition py_remove :: "char \<Rightarrow> string \<Rightarrow> string" where
  "py_remove c s = filter (\<lambda>x. x \<noteq> c) s"

text \<open>\<^verbatim>\<open>k in s\<close> on strings: \<^verbatim>\<open>k\<close> occurs in \<^verbatim>\<open>s\<close> as a contiguous block.\<close>

fun starts_with :: "string \<Rightarrow> string \<Rightarrow> bool" where
  "starts_with [] s = True"
| "starts_with (k # ks) [] = False"
| "starts_with (k # ks) (c # s) = (k = c \<and> starts_with ks s)"

fun py_in :: "string \<Rightarrow> string \<Rightarrow> bool" where
  "py_in k [] = (k = [])"
| "py_in k (c # s) = (starts_with k (c # s) \<or> py_in k s)"

text \<open>\<^verbatim>\<open>" ".join(parts)\<close>.\<close>

fun join_spaces :: "string list \<Rightarrow> string" where
  "join_spaces [] = []"
| "join_spaces [p] = p"
| "join_spaces (p # q # ps) = p @ '' '' @ join_spaces (q # ps)"

text \<open>\<^verbatim>\<open>a or b\<close> on optional strings: \<^verbatim>\<open>None\<close> and the empty string are falsy.\<close>

definition or_empty :: "string option \<Rightarrow> string" where
  "or_empty a = (case a of None \<Rightarrow> [] | Some s \<Rightarrow> s)"

definition truthy :: "string option \<Rightarrow> bool" where
  "truthy a = (case a of None \<Rightarrow> False | Some s \<Rightarrow> s \<noteq> [])"

text \<open>
  What the model library hands back for a property: \<^verbatim>\<open>None\<close>, a number, a boolean, a
  string, an entity reference or some other object; the last two carry the text that
  \<^verbatim>\<open>str\<close> gives for them. \<^verbatim>\<open>safe_value\<close> keeps the JSON-safe ones and turns the rest
  into that text.
\<close>

datatype raw_value =
    RNone
  | RInt int
  | RFloat real
  | RBool bool
  | RStr string
  | REntity string
  | ROther string

datatype json_value =
    JNone
  | JInt int
  | JFloat real
  | JBool bool
  | JStr string

fun safe_value :: "raw_value \<Rightarrow> json_value" where
  "safe_value RNone = JNone"
| "safe_value (RInt i) = JInt i"
| "safe_value (RFloat x) = JFloat x"
| "safe_value (RBool b) = JBool b"
| "safe_value (RStr s) = JStr s"
| "safe_value (REntity s) = JStr s"
| "safe_value (ROther s) = JStr s"

text \<open>An exception raised by the model library; the engine never looks at its kind.\<close>

datatype exn = Exn

text \<open>
  A Python \<^verbatim>\<open>dict\<close> keeps its keys in insertion order: an association list.
  \<^verbatim>\<open>d[k] = v\<close> replaces the value of a key in place and appends a new key at the end.
\<close>

type_synonym 'v pydict = "(string \<times> 'v) list"

fun dict_set :: "string \<Rightarrow> 'v \<Rightarrow> 'v pydict \<Rightarrow> 'v pydict" where
  "dict_set k v [] = [(k, v)]"
| "dict_set k v ((k', v') # d) = (if k' = k then (k, v) # d else (k', v') # dict_set k v d)"

definition is_dict :: "'v pydict \<Rightarrow> bool" where
  "is_dict d = distinct (map fst d)"

section \<open>KeyMatcher\<close>

definition VOLUME_KEYS :: "string list" where
  "VOLUME_KEYS = [''netvolume'', ''grossvolume'', ''volume'']"

definition AREA_KEYS :: "string list" where
  "AREA_KEYS = [''netarea'', ''grossarea'', ''netsidearea'', ''grosssidearea'', ''area'',
     ''crosssectionarea'', ''outersurfacearea'', ''totalsurfacearea'', ''netsurfacearea'']"

definition HEIGHT_KEYS :: "string list" where
  "HEIGHT_KEYS = [''height'', ''overallheight'', ''nominalheight'']"

definition LENGTH_KEYS :: "string list" where
  "LENGTH_KEYS = [''length'', ''overalllength'', ''nominallength'', ''span'']"

definition WIDTH_KEYS :: "string list" where
  "WIDTH_KEYS = [''width'', ''overallwidth'', ''nominalwidth'']"

definition PERIMETER_KEYS :: "string list" where
  "PERIMETER_KEYS = [''perimeter'', ''grossperimeter'', ''netperimeter'']"

definition WEIGHT_KEYS :: "string list" where
  "WEIGHT_KEYS = [''weight'', ''grossweight'', ''netweight'']"

definition CONCRETE_KEYS :: "string list" where
  "CONCRETE_KEYS = [''concretestrength'', ''concreteclass'', ''concretegrade'',
     ''classofconcrete'', ''strengthclass'']"

definition normalize_key :: "string \<Rightarrow> string" where
  "normalize_key name =
     py_remove (CHR ''-'') (py_remove (CHR ''_'') (py_remove (CHR '' '') (py_lower name)))"

definition match_keys :: "string \<Rightarrow> string list \<Rightarrow> bool" where
  "match_keys name key_set = (let nk = normalize_key name in list_ex (\<lambda>k. py_in k nk) key_set)"



section \<open>PropertyCollector\<close>

text \<open>
  The two retrieval loops of \<^verbatim>\<open>extract_element_data\<close>: every entry but the one keyed
  \<^verbatim>\<open>"id"\<close> is stored under its key with its \<^verbatim>\<open>safe_value\<close>, every set under its name.
  A retrieval that raises leaves the mapping empty.
\<close>

fun clean_entries :: "raw_value pydict \<Rightarrow> json_value pydict \<Rightarrow> json_value pydict" where
  "clean_entries [] clean_props = clean_props"
| "clean_entries ((k, v) # rest) clean_props =
     (if k = ''id'' then clean_entries rest clean_props
      else clean_entries rest (dict_set k (safe_value v) clean_props))"

fun clean_sets ::
  "raw_value pydict pydict \<Rightarrow> json_value pydict pydict \<Rightarrow> json_value pydict pydict" where
  "clean_sets [] psets = psets"
| "clean_sets ((pset_name, props) # rest) psets =
     clean_sets rest (dict_set pset_name (clean_entries props []) psets)"

definition retrieve_sets :: "exn + raw_value pydict pydict \<Rightarrow> json_value pydict pydict" where
  "retrieve_sets got = (case got of Inl e \<Rightarrow> [] | Inr all_psets \<Rightarrow> clean_sets all_psets [])"

text \<open>
  The local variables of the scanning loop. \<^verbatim>\<open>length\<close> is spelt \<open>length_m\<close> here.
\<close>

record semantic =
  volume :: real
  area :: real
  height :: real
  length_m :: real
  width :: real
  perimeter :: real
  weight :: real
  concrete_class :: string

definition initial_semantic :: semantic where
  "initial_semantic =
     \<lparr>volume = 0, area = 0, height = 0, length_m = 0, width = 0, perimeter = 0, weight = 0,
      concrete_class = []\<rparr>"

text \<open>
  \<^verbatim>\<open>float(v) if isinstance(v, (int, float)) else None\<close>. In Python \<^verbatim>\<open>bool\<close> is a subclass
  of \<^verbatim>\<open>int\<close>, so a boolean passes the test and converts to 1.0 or 0.0.
\<close>

fun numeric_value :: "json_value \<Rightarrow> real option" where
  "numeric_value (JInt i) = Some (of_int i)"
| "numeric_value (JFloat x) = Some x"
| "numeric_value (JBool b) = Some (if b then 1 else 0)"
| "numeric_value JNone = None"
| "numeric_value (JStr s) = None"

text \<open>The \<^verbatim>\<open>if\<close>/\<^verbatim>\<open>elif\<close> chain run for a value \<open>fv > 0\<close>.\<close>

definition claim_numeric :: "string \<Rightarrow> real \<Rightarrow> semantic \<Rightarrow> semantic" where
  "claim_numeric k fv st =
     (if volume st = 0 \<and> match_keys k VOLUME_KEYS then st\<lparr>volume := fv\<rparr>
      else if area st = 0 \<and> match_keys k AREA_KEYS then st\<lparr>area := fv\<rparr>
      else if height st = 0 \<and> match_keys k HEIGHT_KEYS then st\<lparr>height := fv\<rparr>
      else if length_m st = 0 \<and> match_keys k LENGTH_KEYS then st\<lparr>length_m := fv\<rparr>
      else if width st = 0 \<and> match_keys k WIDTH_KEYS then st\<lparr>width := fv\<rparr>
      else if perimeter st = 0 \<and> match_keys k PERIMETER_KEYS then st\<lparr>perimeter := fv\<rparr>
      else if weight st = 0 \<and> match_keys k WEIGHT_KEYS then st\<lparr>weight := fv\<rparr>
      else st)"

text \<open>The body of the innermost loop, for one entry \<open>(k, v)\<close>.\<close>

definition scan_entry :: "string \<Rightarrow> json_value \<Rightarrow> semantic \<Rightarrow> semantic" where
  "scan_entry k v st =
     (if v = JNone then st
      else
        let st1 = (case numeric_value v of
                     None \<Rightarrow> st
                   | Some fv \<Rightarrow> if fv > 0 then claim_numeric k fv st else st)
        in (case v of
              JStr s \<Rightarrow>
                if concrete_class st1 = [] \<and> match_keys k CONCRETE_KEYS
                then st1\<lparr>concrete_class := s\<rparr> else st1
            | _ \<Rightarrow> st1))"

fun scan_props :: "json_value pydict \<Rightarrow> semantic \<Rightarrow> semantic" where
  "scan_props [] st = st"
| "scan_props ((k, v) # rest) st = scan_props rest (scan_entry k v st)"

fun scan_sets :: "json_value pydict pydict \<Rightarrow> semantic \<Rightarrow> semantic" where
  "scan_sets [] st = st"
| "scan_sets ((pset_name, props) # rest) st = scan_sets rest (scan_props props st)"

text \<open>\<^verbatim>\<open>for source in [psets, qsets]\<close>.\<close>

definition scan_sources :: "json_value pydict pydict \<Rightarrow> json_value pydict pydict \<Rightarrow> semantic" where
  "scan_sources psets qsets = scan_sets qsets (scan_sets psets initial_semantic)"

text \<open>
  \<^verbatim>\<open>round(x, 6)\<close>: the nearest multiple of \<open>10\<^sup>-\<^sup>6\<close>, a tie going to the even one.
\<close>

definition round_half_even :: "real \<Rightarrow> int" where
  "round_half_even y =
     (let f = \<lfloor>y\<rfloor> in
      if y - of_int f < 1 / 2 then f
      else if 1 / 2 < y - of_int f then f + 1
      else if even f then f else f + 1)"

definition round6 :: "real \<Rightarrow> real" where
  "round6 x = of_int (round_half_even (x * 1000000)) / 1000000"

section \<open>MaterialResolver and ClassificationResolver\<close>

text \<open>
  What \<^verbatim>\<open>get_material\<close> can return. A layer or a constituent is given by its
  \<^verbatim>\<open>Material\<close>, absent or a material with an optional \<^verbatim>\<open>Name\<close>; a layer set usage
  by the layers of its \<^verbatim>\<open>ForLayerSet\<close>, when it has one.
\<close>

datatype material_select =
    IfcMaterial "string option"
  | IfcMaterialLayerSetUsage "string option option list option"
  | IfcMaterialLayerSet "string option option list"
  | IfcMaterialList "string option list"
  | IfcMaterialConstituentSet "string option option list option"
  | IfcMaterialOther

fun append_material_names :: "string option option list \<Rightarrow> string list \<Rightarrow> string list" where
  "append_material_names [] materials = materials"
| "append_material_names (None # rest) materials = append_material_names rest materials"
| "append_material_names (Some nm # rest) materials =
     append_material_names rest (materials @ [or_empty nm])"

fun append_list_names :: "string option list \<Rightarrow> string list \<Rightarrow> string list" where
  "append_list_names [] materials = materials"
| "append_list_names (nm # rest) materials = append_list_names rest (materials @ [or_empty nm])"

fun resolve_materials :: "exn + material_select option \<Rightarrow> string list" where
  "resolve_materials (Inl e) = []"
| "resolve_materials (Inr None) = []"
| "resolve_materials (Inr (Some (IfcMaterial nm))) = [or_empty nm]"
| "resolve_materials (Inr (Some (IfcMaterialLayerSetUsage None))) = []"
| "resolve_materials (Inr (Some (IfcMaterialLayerSetUsage (Some layers)))) =
     append_material_names layers []"
| "resolve_materials (Inr (Some (IfcMaterialLayerSet layers))) = append_material_names layers []"
| "resolve_materials (Inr (Some (IfcMaterialList ms))) = append_list_names ms []"
| "resolve_materials (Inr (Some (IfcMaterialConstituentSet None))) = []"
| "resolve_materials (Inr (Some (IfcMaterialConstituentSet (Some cs)))) =
     append_material_names cs []"
| "resolve_materials (Inr (Some IfcMaterialOther)) = []"

record classification_reference =
  ItemReference :: "string option"
  Identification :: "string option"
  ReferenceName :: "string option"

datatype association =
    IfcRelAssociatesClassification "classification_reference option"
  | IfcRelAssociatesOther

text \<open>\<^verbatim>\<open>a or b\<close>, both optional strings.\<close>

definition or_else :: "string option \<Rightarrow> string option \<Rightarrow> string option" where
  "or_else a b = (if truthy a then a else b)"

definition classification_string :: "classification_reference \<Rightarrow> string" where
  "classification_string ref =
     (let code = or_empty (or_else (ItemReference ref) (Identification ref));
          cname = or_empty (ReferenceName ref)
      in if code \<noteq> [] then code @ '': '' @ cname else cname)"

fun resolve_classifications :: "association list \<Rightarrow> string list \<Rightarrow> string list" where
  "resolve_classifications [] classifications = classifications"
| "resolve_classifications (IfcRelAssociatesClassification (Some ref) # rest) classifications =
     resolve_classifications rest (classifications @ [classification_string ref])"
| "resolve_classifications (IfcRelAssociatesClassification None # rest) classifications =
     resolve_classifications rest classifications"
| "resolve_classifications (IfcRelAssociatesOther # rest) classifications =
     resolve_classifications rest classifications"

section \<open>RowAssembler\<close>

text \<open>
  An element as the engine reads it: its attributes (absent ones are \<open>None\<close>), what the two
  calls of \<^verbatim>\<open>get_psets\<close> and the call of \<^verbatim>\<open>get_material\<close> give or raise, and its
  association relations.
\<close>

record ifc_element =
  element_id :: int
  GlobalId :: "string option"
  Name :: "string option"
  Description :: "string option"
  is_a :: string
  get_psets :: "exn + raw_value pydict pydict"
  get_qtos :: "exn + raw_value pydict pydict"
  get_material :: "exn + material_select option"
  HasAssociations :: "association list option"

record element_row =
  express_id :: int
  global_id :: string
  ifc_type :: string
  name :: string
  description :: string
  row_volume :: real
  row_area :: real
  row_height :: real
  row_length :: real
  row_width :: real
  row_perimeter :: real
  row_weight :: real
  floor_name :: string
  materials :: "string list"
  classifications :: "string list"
  row_concrete_class :: string
  property_sets :: "json_value pydict pydict"
  quantity_sets :: "json_value pydict pydict"
  search_text :: string

text \<open>
  The search-text loop over the property sets. \<open>fmt\<close> is the text an f-string gives for a
  stored value.
\<close>

fun append_entries :: "(json_value \<Rightarrow> string) \<Rightarrow> json_value pydict \<Rightarrow> string list \<Rightarrow> string list" where
  "append_entries fmt [] search_parts = search_parts"
| "append_entries fmt ((k, v) # rest) search_parts =
     append_entries fmt rest (search_parts @ [k @ ''='' @ fmt v])"

fun append_sets ::
  "(json_value \<Rightarrow> string) \<Rightarrow> json_value pydict pydict \<Rightarrow> string list \<Rightarrow> string list" where
  "append_sets fmt [] search_parts = search_parts"
| "append_sets fmt ((pset_name, props) # rest) search_parts =
     append_sets fmt rest (append_entries fmt props (search_parts @ [pset_name]))"

definition extract_element_data ::
  "(json_value \<Rightarrow> string) \<Rightarrow> ifc_element \<Rightarrow> (int \<rightharpoonup> string) \<Rightarrow> element_row" where
  "extract_element_data fmt element storey_map =
     (let psets = retrieve_sets (get_psets element);
          qsets = retrieve_sets (get_qtos element);
          st = scan_sources psets qsets;
          mats = resolve_materials (get_material element);
          cls = resolve_classifications
                  (case HasAssociations element of None \<Rightarrow> [] | Some rels \<Rightarrow> rels) [];
          floor = (case storey_map (element_id element) of None \<Rightarrow> [] | Some s \<Rightarrow> s);
          search_parts =
            append_sets fmt psets
              ([is_a element, or_empty (Name element), or_empty (Description element), floor,
                concrete_class st] @ mats @ cls);
          text = join_spaces (filter (\<lambda>s. s \<noteq> []) search_parts)
      in \<lparr>express_id = element_id element,
          global_id = or_empty (GlobalId element),
          ifc_type = is_a element,
          name = or_empty (Name element),
          description = or_empty (Description element),
          row_volume = round6 (volume st),
          row_area = round6 (area st),
          row_height = round6 (height st),
          row_length = round6 (length_m st),
          row_width = round6 (width st),
          row_perimeter = round6 (perimeter st),
          row_weight = round6 (weight st),
          floor_name = floor,
          materials = filter (\<lambda>m. m \<noteq> []) mats,
          classifications = filter (\<lambda>c. c \<noteq> []) cls,
          row_concrete_class = concrete_class st,
          property_sets = psets,
          quantity_sets = qsets,
          search_text = take 10000 text\<rparr>)"

section \<open>Vocabulary for the properties of the collector\<close>






text \<open>
  The scan order: the entries of the property sets, then those of the quantity sets, each
  in set-insertion order and then key order.
\<close>

definition scan_order ::
  "json_value pydict pydict \<Rightarrow> json_value pydict pydict \<Rightarrow> (string \<times> json_value) list" where
  "scan_order psets qsets = concat (map snd psets) @ concat (map snd qsets)"

definition scanned_entries :: "ifc_element \<Rightarrow> (string \<times> json_value) list" where
  "scanned_entries element =
     scan_order (retrieve_sets (get_psets element)) (retrieve_sets (get_qtos element))"

text \<open>The entries as the model library gives them, in the same order.\<close>

definition retrieved :: "exn + raw_value pydict pydict \<Rightarrow> raw_value pydict pydict" where
  "retrieved got = (case got of Inl e \<Rightarrow> [] | Inr sets \<Rightarrow> sets)"

definition raw_entries :: "ifc_element \<Rightarrow> (string \<times> raw_value) list" where
  "raw_entries element =
     concat (map snd (retrieved (get_psets element)))
       @ concat (map snd (retrieved (get_qtos element)))"













text \<open>The first non-empty string among the entries whose name matches a key-set.\<close>

fun string_value :: "json_value \<Rightarrow> string" where
  "string_value (JStr s) = s"
| "string_value JNone = []"
| "string_value (JInt i) = []"
| "string_value (JFloat x) = []"
| "string_value (JBool b) = []"

definition first_string :: "string list \<Rightarrow> (string \<times> json_value) list \<Rightarrow> string" where
  "first_string key_set es =
     (case find (\<lambda>(k, v). match_keys k key_set \<and> string_value v \<noteq> []) es of
        None \<Rightarrow> []
      | Some (k, v) \<Rightarrow> string_value v)"

fun raw_string_value :: "raw_value \<Rightarrow> string" where
  "raw_string_value (RStr s) = s"
| "raw_string_value RNone = []"
| "raw_string_value (RInt i) = []"
| "raw_string_value (RFloat x) = []"
| "raw_string_value (RBool b) = []"
| "raw_string_value (REntity s) = []"
| "raw_string_value (ROther s) = []"

definition first_raw_string :: "string list \<Rightarrow> (string \<times> raw_value) list \<Rightarrow> string" where
  "first_raw_string key_set es =
     (case find (\<lambda>(k, v). match_keys k key_set \<and> raw_string_value v \<noteq> []) es of
        None \<Rightarrow> []
      | Some (k, v) \<Rightarrow> raw_string_value v)"

text \<open>
  What the stored mappings are when retrieval succeeds on well-formed dictionaries (no key
  twice): every set under its name, every entry but the one keyed \<^verbatim>\<open>"id"\<close> under its key
  with its \<^verbatim>\<open>safe_value\<close>.
\<close>

definition stored_entries :: "raw_value pydict \<Rightarrow> json_value pydict" where
  "stored_entries props = map (\<lambda>(k, v). (k, safe_value v)) (filter (\<lambda>(k, v). k \<noteq> ''id'') props)"

definition stored_sets :: "raw_value pydict pydict \<Rightarrow> json_value pydict pydict" where
  "stored_sets sets = map (\<lambda>(pset_name, props). (pset_name, stored_entries props)) sets"

definition well_formed :: "raw_value pydict pydict \<Rightarrow> bool" where
  "well_formed sets = (is_dict sets \<and> list_all (\<lambda>(pset_name, props). is_dict props) sets)"

text \<open>
  A retrieved value and a stored value are the same when they are the same \<^verbatim>\<open>None\<close>,
  number, boolean or string; a retrieved mapping is carried unchanged by a stored one when
  each of its sets is there under its name with each of its entries under its key and the
  same value.
\<close>

fun same_value :: "raw_value \<Rightarrow> json_value \<Rightarrow> bool" where
  "same_value RNone v' = (v' = JNone)"
| "same_value (RInt i) v' = (v' = JInt i)"
| "same_value (RFloat x) v' = (v' = JFloat x)"
| "same_value (RBool b) v' = (v' = JBool b)"
| "same_value (RStr s) v' = (v' = JStr s)"
| "same_value (REntity s) v' = False"
| "same_value (ROther s) v' = False"

definition entry_carried :: "json_value pydict \<Rightarrow> string \<times> raw_value \<Rightarrow> bool" where
  "entry_carried props' kv =
     (case map_of props' (fst kv) of None \<Rightarrow> False | Some v' \<Rightarrow> same_value (snd kv) v')"

definition carried_unchanged ::
  "raw_value pydict pydict \<Rightarrow> json_value pydict pydict \<Rightarrow> bool" where
  "carried_unchanged sets stored =
     list_all (\<lambda>(pset_name, props).
        case map_of stored pset_name of
          None \<Rightarrow> False
        | Some props' \<Rightarrow> list_all (entry_carried props') props) sets"


text \<open>The floor name and the association relations that \<^verbatim>\<open>extract_element_data\<close> reads.\<close>

definition floor_of :: "ifc_element \<Rightarrow> (int \<rightharpoonup> string) \<Rightarrow> string" where
  "floor_of element storey_map =
     (case storey_map (element_id element) of None \<Rightarrow> [] | Some s \<Rightarrow> s)"

definition associations_of :: "ifc_element \<Rightarrow> association list" where
  "associations_of element = (case HasAssociations element of None \<Rightarrow> [] | Some rels \<Rightarrow> rels)"

section \<open>StoreyMapper\<close>

text \<open>
  A containment relation gives its relating structure (possibly absent) and its related
  elements (possibly \<^verbatim>\<open>None\<close>); reading it can raise, and so can reading the id of a
  related element. Of the structure the engine reads \<^verbatim>\<open>Name\<close> and \<^verbatim>\<open>LongName\<close>.
\<close>

record spatial_structure =
  structure_Name :: "string option"
  structure_LongName :: "string option"

datatype element_ref = ElementRef int | BrokenRef

datatype rel_contained =
    RelContained "spatial_structure option" "element_ref list option"
  | BrokenRel

definition storey_name_of :: "spatial_structure \<Rightarrow> string" where
  "storey_name_of structure =
     or_empty (or_else (structure_Name structure) (structure_LongName structure))"

definition related_elements :: "element_ref list option \<Rightarrow> element_ref list" where
  "related_elements elements = (case elements of None \<Rightarrow> [] | Some es \<Rightarrow> es)"

text \<open>
  The two loops of \<^verbatim>\<open>build_storey_map\<close>. They sit inside one \<^verbatim>\<open>try\<close>: an exception ends
  both, and the map as it is then is what the function returns.
\<close>

fun assign_elements ::
  "element_ref list \<Rightarrow> string \<Rightarrow> (int \<rightharpoonup> string) \<Rightarrow> (int \<rightharpoonup> string) \<times> exn option" where
  "assign_elements [] storey_name storey_map = (storey_map, None)"
| "assign_elements (ElementRef i # rest) storey_name storey_map =
     assign_elements rest storey_name (storey_map(i \<mapsto> storey_name))"
| "assign_elements (BrokenRef # rest) storey_name storey_map = (storey_map, Some Exn)"

fun storey_loop ::
  "rel_contained list \<Rightarrow> (int \<rightharpoonup> string) \<Rightarrow> (int \<rightharpoonup> string) \<times> exn option" where
  "storey_loop [] storey_map = (storey_map, None)"
| "storey_loop (BrokenRel # rest) storey_map = (storey_map, Some Exn)"
| "storey_loop (RelContained None elements # rest) storey_map = storey_loop rest storey_map"
| "storey_loop (RelContained (Some structure) elements # rest) storey_map =
     (case assign_elements (related_elements elements) (storey_name_of structure) storey_map of
        (storey_map', None) \<Rightarrow> storey_loop rest storey_map'
      | (storey_map', Some e) \<Rightarrow> (storey_map', Some e))"

definition build_storey_map :: "rel_contained list \<Rightarrow> (int \<rightharpoonup> string)" where
  "build_storey_map rels = fst (storey_loop rels Map.empty)"

text \<open>
  A run of the loops over some relations raises when it ends with an exception; a
  relation assigns a floor to an element id when it has a relating structure and lists
  the id among its related elements.
\<close>

definition raises :: "rel_contained list \<Rightarrow> (int \<rightharpoonup> string) \<Rightarrow> bool" where
  "raises rels storey_map = (snd (storey_loop rels storey_map) \<noteq> None)"

fun assigns :: "rel_contained \<Rightarrow> int \<Rightarrow> bool" where
  "assigns (RelContained (Some structure) elements) i = (ElementRef i \<in> set (related_elements elements))"
| "assigns (RelContained None elements) i = False"
| "assigns BrokenRel i = False"

section \<open>SpatialTreeBuilder\<close>

definition SPATIAL_TYPES :: "string list" where
  "SPATIAL_TYPES = [''IfcProject'', ''IfcSite'', ''IfcBuilding'', ''IfcBuildingStorey'', ''IfcSpace'']"

text \<open>
  An entity of the decomposition hierarchy: its id, its type tag, \<^verbatim>\<open>Name\<close>,
  \<^verbatim>\<open>LongName\<close> and \<^verbatim>\<open>Elevation\<close> (\<open>None\<close> and \<open>RNone\<close> when absent), its containment
  relations, and for each of its decomposition relations the related objects, some of
  which may be \<^verbatim>\<open>None\<close>. An absent list is the empty list. The decomposition is finite
  and the recursion follows it; two entities with the same id are the same entity met
  along two paths. Reading the attributes of an entity of the hierarchy is taken to
  succeed; reading a containment relation can raise, as in the storey map.
\<close>

datatype spatial_entity =
  SpatialEntity (entity_id: int) (entity_is_a: string) (entity_Name: "string option")
    (entity_LongName: "string option") (entity_Elevation: raw_value)
    (ContainsElements: "rel_contained list") (IsDecomposedBy: "spatial_entity option list list")

record spatial_node =
  node_express_id :: int
  node_ifc_type :: string
  node_name :: string
  node_long_name :: string
  parent_express_id :: "int option"
  elevation :: "real option"
  element_count :: nat

text \<open>
  \<^verbatim>\<open>float(x)\<close> with \<^verbatim>\<open>ValueError\<close> and \<^verbatim>\<open>TypeError\<close> caught: \<open>None\<close> is the failure.
  \<open>parse\<close> is Python's reading of a float from a string.
\<close>

fun py_float :: "(string \<Rightarrow> real option) \<Rightarrow> raw_value \<Rightarrow> real option" where
  "py_float parse (RInt i) = Some (of_int i)"
| "py_float parse (RFloat x) = Some x"
| "py_float parse (RBool b) = Some (if b then 1 else 0)"
| "py_float parse (RStr s) = parse s"
| "py_float parse RNone = None"
| "py_float parse (REntity s) = None"
| "py_float parse (ROther s) = None"

definition read_elevation :: "(string \<Rightarrow> real option) \<Rightarrow> string \<Rightarrow> raw_value \<Rightarrow> real option" where
  "read_elevation parse tag elev =
     (if tag = ''IfcBuildingStorey''
      then (if elev \<noteq> RNone then py_float parse elev else None)
      else None)"

text \<open>The count of contained elements; an exception ends the loop and keeps the count.\<close>

fun count_contained :: "rel_contained list \<Rightarrow> nat \<Rightarrow> nat" where
  "count_contained [] count = count"
| "count_contained (BrokenRel # rest) count = count"
| "count_contained (RelContained structure elements # rest) count =
     count_contained rest (count + length (related_elements elements))"

definition make_node ::
  "(string \<Rightarrow> real option) \<Rightarrow> spatial_entity \<Rightarrow> int option \<Rightarrow> spatial_node" where
  "make_node parse entity parent_id =
     \<lparr>node_express_id = entity_id entity,
      node_ifc_type = entity_is_a entity,
      node_name = or_empty (entity_Name entity),
      node_long_name = or_empty (entity_LongName entity),
      parent_express_id = parent_id,
      elevation = read_elevation parse (entity_is_a entity) (entity_Elevation entity),
      element_count = count_contained (ContainsElements entity) 0\<rparr>"

text \<open>
  \<^verbatim>\<open>process_spatial\<close> with its two loops over the decomposition relations and their
  related objects; \<open>nodes\<close> is the list the function appends to.
\<close>

fun process_spatial ::
    "(string \<Rightarrow> real option) \<Rightarrow> spatial_entity option \<Rightarrow> int option \<Rightarrow> spatial_node list
      \<Rightarrow> spatial_node list"
  and process_objects ::
    "(string \<Rightarrow> real option) \<Rightarrow> spatial_entity option list \<Rightarrow> int \<Rightarrow> spatial_node list
      \<Rightarrow> spatial_node list"
  and process_relations ::
    "(string \<Rightarrow> real option) \<Rightarrow> spatial_entity option list list \<Rightarrow> int \<Rightarrow> spatial_node list
      \<Rightarrow> spatial_node list"
where
  "process_spatial parse None parent_id nodes = nodes"
| "process_spatial parse (Some (SpatialEntity i tag nm long_nm elev contains decomposed))
     parent_id nodes =
     (if tag \<notin> set SPATIAL_TYPES then nodes
      else process_relations parse decomposed i
             (nodes @ [make_node parse
                (SpatialEntity i tag nm long_nm elev contains decomposed) parent_id]))"
| "process_objects parse [] i nodes = nodes"
| "process_objects parse (child # rest) i nodes =
     process_objects parse rest i (process_spatial parse child (Some i) nodes)"
| "process_relations parse [] i nodes = nodes"
| "process_relations parse (rel # rest) i nodes =
     process_relations parse rest i (process_objects parse rel i nodes)"

fun process_projects ::
  "(string \<Rightarrow> real option) \<Rightarrow> spatial_entity list \<Rightarrow> spatial_node list \<Rightarrow> spatial_node list" where
  "process_projects parse [] nodes = nodes"
| "process_projects parse (project # rest) nodes =
     process_projects parse rest (process_spatial parse (Some project) None nodes)"

definition build_spatial_tree ::
  "(string \<Rightarrow> real option) \<Rightarrow> spatial_entity list \<Rightarrow> spatial_node list" where
  "build_spatial_tree parse projects = process_projects parse projects []"

text \<open>
  The decomposition relations as pairs (child id, parent id), and the pairs
  (node id, parent id) that a list of nodes records.
\<close>

fun entity_edges :: "spatial_entity option \<Rightarrow> (int \<times> int) list"
  and objects_edges :: "spatial_entity option list \<Rightarrow> int \<Rightarrow> (int \<times> int) list"
  and relations_edges :: "spatial_entity option list list \<Rightarrow> int \<Rightarrow> (int \<times> int) list"
where
  "entity_edges None = []"
| "entity_edges (Some (SpatialEntity i tag nm long_nm elev contains decomposed)) =
     relations_edges decomposed i"
| "objects_edges [] i = []"
| "objects_edges (None # rest) i = objects_edges rest i"
| "objects_edges (Some child # rest) i =
     (entity_id child, i) # entity_edges (Some child) @ objects_edges rest i"
| "relations_edges [] i = []"
| "relations_edges (rel # rest) i = objects_edges rel i @ relations_edges rest i"

definition decomposition_edges :: "spatial_entity list \<Rightarrow> (int \<times> int) set" where
  "decomposition_edges projects = set (concat (map (\<lambda>p. entity_edges (Some p)) projects))"

definition parent_edges :: "spatial_node list \<Rightarrow> (int \<times> int) set" where
  "parent_edges nodes =
     {(node_express_id n, p) | n p. n \<in> set nodes \<and> parent_express_id n = Some p}"

text \<open>
  The nodes that a call of \<^verbatim>\<open>process_spatial\<close> appends, in the order it appends them, and
  a check that every parent id recorded in a list of nodes is in a given set or is the id
  of a node earlier in the list.
\<close>

fun emitted :: "(string \<Rightarrow> real option) \<Rightarrow> spatial_entity option \<Rightarrow> int option \<Rightarrow> spatial_node list"
  and emitted_objects ::
    "(string \<Rightarrow> real option) \<Rightarrow> spatial_entity option list \<Rightarrow> int \<Rightarrow> spatial_node list"
  and emitted_relations ::
    "(string \<Rightarrow> real option) \<Rightarrow> spatial_entity option list list \<Rightarrow> int \<Rightarrow> spatial_node list"
where
  "emitted parse None parent_id = []"
| "emitted parse (Some (SpatialEntity i tag nm long_nm elev contains decomposed)) parent_id =
     (if tag \<notin> set SPATIAL_TYPES then []
      else make_node parse (SpatialEntity i tag nm long_nm elev contains decomposed) parent_id
             # emitted_relations parse decomposed i)"
| "emitted_objects parse [] i = []"
| "emitted_objects parse (child # rest) i =
     emitted parse child (Some i) @ emitted_objects parse rest i"
| "emitted_relations parse [] i = []"
| "emitted_relations parse (rel # rest) i =
     emitted_objects parse rel i @ emitted_relations parse rest i"

fun parents_known :: "int set \<Rightarrow> spatial_node list \<Rightarrow> bool" where
  "parents_known seen [] = True"
| "parents_known seen (n # ns) =
     ((case parent_express_id n of None \<Rightarrow> True | Some q \<Rightarrow> q \<in> seen)
      \<and> parents_known (insert (node_express_id n) seen) ns)"

section \<open>Example inputs\<close>

text \<open>A stand-in for the f-string formatting of a stored value.\<close>

definition example_format :: "json_value \<Rightarrow> string" where
  "example_format v = string_value v"

definition plain_element :: ifc_element where
  "plain_element =
     \<lparr>element_id = 7, GlobalId = Some ''2O2Fr$t4X7Zf8NOew3FLOH'', Name = Some ''Wall'',
      Description = None, is_a = ''IfcWall'', get_psets = Inr [], get_qtos = Inr [],
      get_material = Inr None, HasAssociations = None\<rparr>"




definition light_element :: ifc_element where
  "light_element = plain_element
     \<lparr>get_psets := Inr [(''Pset_Custom'', [(''Lightweight'', RBool True)])]\<rparr>"

definition graded_element :: ifc_element where
  "graded_element = plain_element
     \<lparr>get_psets := Inr [(''Pset_Concrete'',
        [(''ConcreteClass'', REntity ''#9''), (''ConcreteGrade'', RStr ''C25'')])]\<rparr>"

definition external_element :: ifc_element where
  "external_element = plain_element
     \<lparr>get_psets := Inr [(''Pset_WallCommon'', [(''id'', RInt 42), (''IsExternal'', RBool True)])],
      get_qtos := Inr [(''Qto_WallBaseQuantities'', [(''id'', RInt 43), (''Net Volume'', RFloat 5.25)])]\<rparr>"

definition level1_rel :: rel_contained where
  "level1_rel = RelContained (Some \<lparr>structure_Name = Some ''Level 1'', structure_LongName = None\<rparr>)
     (Some [ElementRef 7, ElementRef 8])"

definition level2_rel :: rel_contained where
  "level2_rel = RelContained (Some \<lparr>structure_Name = Some ''Level 2'', structure_LongName = None\<rparr>)
     (Some [ElementRef 7])"

definition broken_level_rel :: rel_contained where
  "broken_level_rel = RelContained (Some \<lparr>structure_Name = None, structure_LongName = Some ''Roof''\<rparr>)
     (Some [ElementRef 9, BrokenRef, ElementRef 10])"

text \<open>
  A project decomposed into a site, the site into a building, the building into a storey
  whose elevation is the string "3.5"; and a reading of floats that knows that string.
\<close>

definition example_parse :: "string \<Rightarrow> real option" where
  "example_parse s = (if s = ''3.5'' then Some 3.5 else None)"

definition example_storey :: spatial_entity where
  "example_storey = SpatialEntity 4 ''IfcBuildingStorey'' (Some ''Level 1'') None (RStr ''3.5'')
     [RelContained None (Some [ElementRef 7, ElementRef 8])] []"

definition example_building :: spatial_entity where
  "example_building = SpatialEntity 3 ''IfcBuilding'' (Some ''Block A'') None RNone []
     [[Some example_storey]]"

definition example_site :: spatial_entity where
  "example_site = SpatialEntity 2 ''IfcSite'' None None RNone [] [[Some example_building]]"

definition example_project :: spatial_entity where
  "example_project = SpatialEntity 1 ''IfcProject'' (Some ''Project'') None RNone []
     [[Some example_site]]"

definition annotated_storey :: spatial_entity where
  "annotated_storey = SpatialEntity 5 ''IfcBuildingStorey'' (Some ''Roof'') None (RStr ''n/a'') []
     [[Some (SpatialEntity 6 ''IfcSpace'' (Some ''Plant room'') None (RFloat 9) [] [])]]"

definition annotation_group :: spatial_entity where
  "annotation_group = SpatialEntity 20 ''IfcGroup'' None None RNone [] [[Some example_storey]]"
section \<open>Properties of KeyMatcher\<close>





















section \<open>Properties of PropertyCollector\<close>


lemma concrete_class_claim_numeric:
  "concrete_class (claim_numeric k fv st) = concrete_class st"
  by (simp add: claim_numeric_def)



lemma scan_props_append: "scan_props (xs @ ys) st = scan_props ys (scan_props xs st)"
  by (induction xs st rule: scan_props.induct) simp_all

lemma scan_sets_flat: "scan_sets sets st = scan_props (concat (map snd sets)) st"
  by (induction sets st rule: scan_sets.induct) (simp_all add: scan_props_append)

lemma scan_sources_flat:
  "scan_sources psets qsets = scan_props (scan_order psets qsets) initial_semantic"
  by (simp add: scan_sources_def scan_order_def scan_sets_flat scan_props_append)






















lemma row_weight_extract:
  "row_weight (extract_element_data fmt element storey_map) =
     round6 (weight (scan_props (scanned_entries element) initial_semantic))"
  by (simp add: extract_element_data_def Let_def scanned_entries_def scan_sources_flat)

lemma round6_one: "round6 1 = 1"
  by (simp add: round6_def round_half_even_def)

text \<open>
  C3. A string or an entity reference never claims a numeric category, but a boolean
  does: \<^verbatim>\<open>isinstance(True, (int, float))\<close> holds in Python. The property set
  \<^verbatim>\<open>{"Lightweight": True}\<close> gives the row a weight of 1.0.
\<close>

theorem boolean_claims_weight:
  "row_weight (extract_element_data example_format light_element Map.empty) = 1"
proof -
  have e: "scanned_entries light_element = [(''Lightweight'', JBool True)]"
    by (simp add: scanned_entries_def light_element_def plain_element_def retrieve_sets_def
        scan_order_def)
  have w: "weight (scan_props [(''Lightweight'', JBool True)] initial_semantic) = 1"
    by code_simp
  show ?thesis
    by (simp only: row_weight_extract e w round6_one)
qed

lemma text_never_claims:
  "scan_entry k (safe_value (RStr s)) st = scan_entry k (JStr s) st"
  "scan_entry k (safe_value (REntity s)) st = scan_entry k (JStr s) st"
  "volume (scan_entry k (JStr s) st) = volume st"
  "area (scan_entry k (JStr s) st) = area st"
  "height (scan_entry k (JStr s) st) = height st"
  "length_m (scan_entry k (JStr s) st) = length_m st"
  "width (scan_entry k (JStr s) st) = width st"
  "perimeter (scan_entry k (JStr s) st) = perimeter st"
  "weight (scan_entry k (JStr s) st) = weight st"
  by (simp_all add: scan_entry_def)

lemma concrete_class_scan_entry:
  "concrete_class (scan_entry k v st) =
     (if concrete_class st = [] \<and> match_keys k CONCRETE_KEYS \<and> string_value v \<noteq> []
      then string_value v else concrete_class st)"
  by (cases v) (auto simp: scan_entry_def concrete_class_claim_numeric)

lemma concrete_class_scan_props:
  "concrete_class (scan_props es st) =
     (if concrete_class st \<noteq> [] then concrete_class st else first_string CONCRETE_KEYS es)"
proof (induction es st rule: scan_props.induct)
  case (1 st)
  then show ?case by (simp add: first_string_def)
next
  case (2 k v rest st)
  then show ?case
    by (simp add: concrete_class_scan_entry first_string_def)
qed

lemma row_concrete_class_extract:
  "row_concrete_class (extract_element_data fmt element storey_map)
     = concrete_class (scan_props (scanned_entries element) initial_semantic)"
  by (simp add: extract_element_data_def Let_def scanned_entries_def scan_sources_flat)

text \<open>
  C10, as the engine has it. The concrete-class field of the assembled row is the first
  non-empty string, in scan order, among the stored values whose name matches the
  concrete-class key-set, and empty when there is none. The stored value of an entity
  reference or of any other object is its text, so it counts as a string here.
\<close>

theorem concrete_class_first_string:
  "row_concrete_class (extract_element_data fmt element storey_map)
     = first_string CONCRETE_KEYS (scanned_entries element)"
  by (simp add: row_concrete_class_extract concrete_class_scan_props initial_semantic_def)

text \<open>
  C10 as stated, on the retrieved values, fails when an entity reference comes first: its
  text claims the field, not the string that follows.
\<close>

theorem concrete_class_counterexample:
  "row_concrete_class (extract_element_data example_format graded_element Map.empty)
     \<noteq> first_raw_string CONCRETE_KEYS (raw_entries graded_element)"
proof -
  have e: "scanned_entries graded_element
      = [(''ConcreteClass'', JStr ''#9''), (''ConcreteGrade'', JStr ''C25'')]"
    by (simp add: scanned_entries_def graded_element_def plain_element_def retrieve_sets_def
        scan_order_def)
  have r: "raw_entries graded_element
      = [(''ConcreteClass'', REntity ''#9''), (''ConcreteGrade'', RStr ''C25'')]"
    by (simp add: raw_entries_def graded_element_def plain_element_def retrieved_def)
  have a: "concrete_class (scan_props
      [(''ConcreteClass'', JStr ''#9''), (''ConcreteGrade'', JStr ''C25'')] initial_semantic) = ''#9''"
    by code_simp
  have b: "first_raw_string CONCRETE_KEYS
      [(''ConcreteClass'', REntity ''#9''), (''ConcreteGrade'', RStr ''C25'')] = ''C25''"
    by code_simp
  have "row_concrete_class (extract_element_data example_format graded_element Map.empty) = ''#9''"
    by (simp only: row_concrete_class_extract e a)
  moreover have "first_raw_string CONCRETE_KEYS (raw_entries graded_element) = ''C25''"
    by (simp only: r b)
  ultimately show ?thesis by simp
qed

lemma dict_set_fresh: "k \<notin> fst ` set d \<Longrightarrow> dict_set k v d = d @ [(k, v)]"
  by (induction d) auto

lemma clean_entries_dict:
  "distinct (map fst props) \<Longrightarrow> fst ` set props \<inter> fst ` set acc = {} \<Longrightarrow>
     clean_entries props acc = acc @ stored_entries props"
proof (induction props acc rule: clean_entries.induct)
  case (1 acc)
  then show ?case by (simp add: stored_entries_def)
next
  case (2 k v rest acc)
  show ?case
  proof (cases "k = ''id''")
    case True
    with 2 show ?thesis by (simp add: stored_entries_def)
  next
    case False
    from "2.prems" have fresh: "k \<notin> fst ` set acc" by auto
    from "2.prems" have "distinct (map fst rest)"
      and "fst ` set rest \<inter> fst ` set (acc @ [(k, safe_value v)]) = {}"
      by auto
    with "2.IH"(2) [OF False] fresh
    have "clean_entries rest (dict_set k (safe_value v) acc)
        = (acc @ [(k, safe_value v)]) @ stored_entries rest"
      by (simp add: dict_set_fresh)
    with False show ?thesis by (simp add: stored_entries_def)
  qed
qed

lemma clean_sets_dict:
  "distinct (map fst sets) \<Longrightarrow> fst ` set sets \<inter> fst ` set acc = {} \<Longrightarrow>
   list_all (\<lambda>(pset_name, props). is_dict props) sets \<Longrightarrow>
     clean_sets sets acc = acc @ stored_sets sets"
proof (induction sets acc rule: clean_sets.induct)
  case (1 acc)
  then show ?case by (simp add: stored_sets_def)
next
  case (2 pset_name props rest acc)
  from "2.prems" have fresh: "pset_name \<notin> fst ` set acc" by auto
  from "2.prems" have d: "distinct (map fst props)" by (simp add: is_dict_def)
  then have here: "clean_entries props [] = stored_entries props"
    by (simp add: clean_entries_dict)
  from "2.prems" have "distinct (map fst rest)"
    and "fst ` set rest \<inter> fst ` set (acc @ [(pset_name, stored_entries props)]) = {}"
    and "list_all (\<lambda>(pset_name, props). is_dict props) rest"
    by auto
  with "2.IH" [of ] fresh here show ?case
    by (simp add: dict_set_fresh stored_sets_def)
qed

lemma retrieve_sets_well_formed:
  "well_formed sets \<Longrightarrow> retrieve_sets (Inr sets) = stored_sets sets"
  by (simp add: well_formed_def is_dict_def retrieve_sets_def clean_sets_dict)

lemma property_sets_extract:
  "property_sets (extract_element_data fmt element storey_map) = retrieve_sets (get_psets element)"
  "quantity_sets (extract_element_data fmt element storey_map) = retrieve_sets (get_qtos element)"
  by (simp_all add: extract_element_data_def Let_def)

text \<open>
  C9, as the engine has it. When the retrieval of the property sets (of the quantity sets)
  succeeds, the row carries every retrieved set under its name, in the same order, and of
  each set every entry but the one keyed "id", in the same order, with the value that
  \<^verbatim>\<open>safe_value\<close> gives: a \<^verbatim>\<open>None\<close>, a number, a boolean or a string unchanged, any other
  object as its text. When the retrieval raises, the mapping of the row is empty.
\<close>

theorem stored_sets_of_row:
  "(get_psets element = Inr psets \<and> well_formed psets \<longrightarrow>
      property_sets (extract_element_data fmt element storey_map) = stored_sets psets)
   \<and> (get_qtos element = Inr qtos \<and> well_formed qtos \<longrightarrow>
      quantity_sets (extract_element_data fmt element storey_map) = stored_sets qtos)
   \<and> (get_psets element = Inl e \<longrightarrow>
      property_sets (extract_element_data fmt element storey_map) = [])
   \<and> (get_qtos element = Inl e \<longrightarrow>
      quantity_sets (extract_element_data fmt element storey_map) = [])"
  by (simp add: property_sets_extract retrieve_sets_well_formed) (simp add: retrieve_sets_def)

lemma external_psets:
  "retrieve_sets (Inr [(''Pset_WallCommon'', [(''id'', RInt 42), (''IsExternal'', RBool True)])])
     = [(''Pset_WallCommon'', [(''IsExternal'', JBool True)])]"
  by (simp add: retrieve_sets_def)

text \<open>
  C9 as stated fails on the entry keyed "id" that the model library puts in every set: the
  row does not carry it.
\<close>

theorem stored_sets_counterexample:
  "\<not> carried_unchanged (retrieved (get_psets external_element))
      (property_sets (extract_element_data example_format external_element Map.empty))"
proof -
  have g: "get_psets external_element
      = Inr [(''Pset_WallCommon'', [(''id'', RInt 42), (''IsExternal'', RBool True)])]"
    by (simp add: external_element_def plain_element_def)
  have "\<not> carried_unchanged [(''Pset_WallCommon'', [(''id'', RInt 42), (''IsExternal'', RBool True)])]
      [(''Pset_WallCommon'', [(''IsExternal'', JBool True)])]"
    by (simp add: carried_unchanged_def entry_carried_def)
  then show ?thesis
    unfolding property_sets_extract g external_psets retrieved_def by simp
qed

theorem stored_sets_of_row_witness:
  "well_formed [(''Pset_WallCommon'', [(''id'', RInt 42), (''IsExternal'', RBool True)])]
   \<and> property_sets (extract_element_data example_format external_element Map.empty)
       = [(''Pset_WallCommon'', [(''IsExternal'', JBool True)])]
   \<and> well_formed [(''Qto_WallBaseQuantities'', [(''id'', RInt 43), (''Net Volume'', RFloat 5.25)])]
   \<and> quantity_sets (extract_element_data example_format external_element Map.empty)
       = [(''Qto_WallBaseQuantities'', [(''Net Volume'', JFloat 5.25)])]
   \<and> property_sets (extract_element_data example_format
         (external_element\<lparr>get_psets := Inl Exn, get_qtos := Inl Exn\<rparr>) Map.empty) = []
   \<and> quantity_sets (extract_element_data example_format
         (external_element\<lparr>get_psets := Inl Exn, get_qtos := Inl Exn\<rparr>) Map.empty) = []"
proof -
  let ?p = "[(''Pset_WallCommon'', [(''id'', RInt 42), (''IsExternal'', RBool True)])]"
  let ?q = "[(''Qto_WallBaseQuantities'', [(''id'', RInt 43), (''Net Volume'', RFloat 5.25)])]"
  let ?broken = "external_element\<lparr>get_psets := Inl Exn, get_qtos := Inl Exn\<rparr>"
  have gp: "get_psets external_element = Inr ?p" and gq: "get_qtos external_element = Inr ?q"
    by (simp_all add: external_element_def plain_element_def)
  have wp: "well_formed ?p" and wq: "well_formed ?q"
    by (simp_all add: well_formed_def is_dict_def)
  have sp: "stored_sets ?p = [(''Pset_WallCommon'', [(''IsExternal'', JBool True)])]"
    and sq: "stored_sets ?q = [(''Qto_WallBaseQuantities'', [(''Net Volume'', JFloat 5.25)])]"
    by (simp_all add: stored_sets_def stored_entries_def)
  note t = stored_sets_of_row [where element = external_element and psets = ?p and qtos = ?q
      and fmt = example_format and storey_map = Map.empty and e = Exn]
  note b = stored_sets_of_row [where element = ?broken and psets = ?p and qtos = ?q
      and fmt = example_format and storey_map = Map.empty and e = Exn]
  from t gp wp sp
  have 1: "property_sets (extract_element_data example_format external_element Map.empty)
      = [(''Pset_WallCommon'', [(''IsExternal'', JBool True)])]"
    by simp
  from t gq wq sq
  have 2: "quantity_sets (extract_element_data example_format external_element Map.empty)
      = [(''Qto_WallBaseQuantities'', [(''Net Volume'', JFloat 5.25)])]"
    by simp
  from b have 3: "property_sets (extract_element_data example_format ?broken Map.empty) = []"
    and 4: "quantity_sets (extract_element_data example_format ?broken Map.empty) = []"
    by simp_all
  show ?thesis
    by (intro conjI) (rule wp, rule 1, rule wq, rule 2, rule 3, rule 4)
qed


section \<open>Properties of RowAssembler\<close>




lemma text_fields_extract:
  "ifc_type (extract_element_data fmt element storey_map) = is_a element"
  "name (extract_element_data fmt element storey_map) = or_empty (Name element)"
  "description (extract_element_data fmt element storey_map) = or_empty (Description element)"
  "floor_name (extract_element_data fmt element storey_map) = floor_of element storey_map"
  "materials (extract_element_data fmt element storey_map)
     = filter (\<lambda>m. m \<noteq> []) (resolve_materials (get_material element))"
  "classifications (extract_element_data fmt element storey_map)
     = filter (\<lambda>c. c \<noteq> []) (resolve_classifications (associations_of element) [])"
  by (simp_all add: extract_element_data_def Let_def floor_of_def associations_of_def)



section \<open>Properties of StoreyMapper\<close>

lemma storey_loop_append:
  "storey_loop (pre @ post) m =
     (case storey_loop pre m of
        (m', None) \<Rightarrow> storey_loop post m'
      | (m', Some e) \<Rightarrow> (m', Some e))"
  by (induction pre m rule: storey_loop.induct) (auto split: prod.splits option.splits)

lemma raises_stops:
  "raises pre m \<Longrightarrow> storey_loop (pre @ post) m = storey_loop pre m"
  by (auto simp: raises_def storey_loop_append split: prod.splits option.splits)

lemma assign_elements_other:
  "ElementRef i \<notin> set es \<Longrightarrow> fst (assign_elements es n m) i = m i"
  by (induction es n m rule: assign_elements.induct) auto

lemma assign_elements_listed:
  "snd (assign_elements es n m) = None \<Longrightarrow> ElementRef i \<in> set es \<Longrightarrow>
     fst (assign_elements es n m) i = Some n"
proof (induction es n m rule: assign_elements.induct)
  case (2 j rest n m)
  show ?case
  proof (cases "ElementRef i \<in> set rest")
    case True
    with 2 show ?thesis by (simp add: fun_upd_def)
  next
    case False
    with "2.prems" have "j = i" by simp
    with False show ?thesis by (simp add: assign_elements_other)
  qed
qed simp_all

lemma assign_elements_partial:
  "fst (assign_elements (map ElementRef ids @ BrokenRef # remaining) n m) i
     = (if i \<in> set ids then Some n else m i)"
  by (induction ids arbitrary: m) auto

lemma assign_elements_partial_raises:
  "snd (assign_elements (map ElementRef ids @ BrokenRef # remaining) n m) = Some Exn"
  by (induction ids arbitrary: m) auto

lemma storey_loop_unassigned:
  "\<forall>r \<in> set rels. \<not> assigns r i \<Longrightarrow> fst (storey_loop rels m) i = m i"
proof (induction rels m rule: storey_loop.induct)
  case (4 storey elements rest m)
  obtain m' x where a: "assign_elements (related_elements elements) (storey_name_of storey) m = (m', x)"
    by (cases "assign_elements (related_elements elements) (storey_name_of storey) m")
  from "4.prems" have "ElementRef i \<notin> set (related_elements elements)" by simp
  with a assign_elements_other [of i "related_elements elements" "storey_name_of storey" m]
  have m': "m' i = m i" by simp
  from a m' "4.IH" "4.prems" show ?case
    by (cases x) auto
qed simp_all

text \<open>
  C2, as the engine has it. One \<^verbatim>\<open>try\<close> encloses the whole loop over the containment
  relations: when processing a relation raises, the exception is caught outside the loop,
  so the relations after the failing one are not processed and the map returned is the
  map as it was when the exception was raised. The assignments made before, by the
  earlier relations and by the failing relation for the elements it had already passed,
  are kept.
\<close>

theorem storey_failure_ends_loop:
  "(raises (pre @ [r]) Map.empty \<longrightarrow>
      build_storey_map (pre @ r # post) = build_storey_map (pre @ [r]))
   \<and> (\<not> raises pre Map.empty \<longrightarrow>
      build_storey_map
        (pre @ RelContained (Some storey) (Some (map ElementRef ids @ BrokenRef # remaining)) # post) i
        = (if i \<in> set ids then Some (storey_name_of storey) else build_storey_map pre i))"
proof (intro conjI impI)
  assume "raises (pre @ [r]) Map.empty"
  from raises_stops [OF this, of post]
  show "build_storey_map (pre @ r # post) = build_storey_map (pre @ [r])"
    by (simp add: build_storey_map_def)
next
  let ?r = "RelContained (Some storey) (Some (map ElementRef ids @ BrokenRef # remaining))"
  assume "\<not> raises pre Map.empty"
  then obtain m where pre: "storey_loop pre Map.empty = (m, None)"
    by (cases "storey_loop pre Map.empty") (auto simp: raises_def)
  obtain m' where a: "assign_elements (map ElementRef ids @ BrokenRef # remaining)
      (storey_name_of storey) m = (m', Some Exn)"
    using assign_elements_partial_raises [of ids remaining "storey_name_of storey" m]
    by (cases "assign_elements (map ElementRef ids @ BrokenRef # remaining) (storey_name_of storey) m")
      auto
  with assign_elements_partial [of ids remaining "storey_name_of storey" m i]
  have "m' i = (if i \<in> set ids then Some (storey_name_of storey) else m i)"
    by simp
  with pre a
  show "build_storey_map (pre @ ?r # post) i
      = (if i \<in> set ids then Some (storey_name_of storey) else build_storey_map pre i)"
    by (simp add: build_storey_map_def storey_loop_append related_elements_def)
qed

text \<open>
  C2 as stated fails: after a relation that raises, the relation that follows is not
  processed, and the floor it would assign to element 7 is not in the map.
\<close>

theorem storey_failure_counterexample:
  "build_storey_map [level2_rel] 7 = Some ''Level 2''
   \<and> build_storey_map [BrokenRel, level2_rel] 7 \<noteq> Some ''Level 2''"
  by (simp add: build_storey_map_def level2_rel_def related_elements_def storey_name_of_def
      or_else_def or_empty_def truthy_def)

theorem storey_failure_ends_loop_witness:
  "raises ([level1_rel] @ [broken_level_rel]) Map.empty
   \<and> build_storey_map ([level1_rel] @ broken_level_rel # [level2_rel])
       = build_storey_map ([level1_rel] @ [broken_level_rel])
   \<and> \<not> raises [level1_rel] Map.empty
   \<and> build_storey_map ([level1_rel] @ broken_level_rel # [level2_rel]) 9 = Some ''Roof''
   \<and> build_storey_map ([level1_rel] @ broken_level_rel # [level2_rel]) 7 = Some ''Level 1''
   \<and> build_storey_map ([level1_rel] @ broken_level_rel # [level2_rel]) 10 = None"
proof -
  let ?s = "\<lparr>structure_Name = None, structure_LongName = Some ''Roof''\<rparr>"
  have b: "broken_level_rel = RelContained (Some ?s) (Some (map ElementRef [9] @ BrokenRef # [ElementRef 10]))"
    by (simp add: broken_level_rel_def)
  have r: "raises ([level1_rel] @ [broken_level_rel]) Map.empty"
    by (simp add: raises_def level1_rel_def broken_level_rel_def related_elements_def)
  have n: "\<not> raises [level1_rel] Map.empty"
    by (simp add: raises_def level1_rel_def related_elements_def)
  have nm: "storey_name_of ?s = ''Roof''"
    by (simp add: storey_name_of_def or_else_def or_empty_def truthy_def)
  have l1: "build_storey_map [level1_rel] 7 = Some ''Level 1''"
    and l10: "build_storey_map [level1_rel] 10 = None"
    by (simp_all add: build_storey_map_def level1_rel_def related_elements_def storey_name_of_def
        or_else_def or_empty_def truthy_def)
  note t = storey_failure_ends_loop [where pre = "[level1_rel]" and r = broken_level_rel
      and post = "[level2_rel]" and storey = ?s and ids = "[9]" and remaining = "[ElementRef 10]"]
  from t [where i = 0, THEN conjunct1, THEN mp, OF r]
  have 1: "build_storey_map ([level1_rel] @ broken_level_rel # [level2_rel])
       = build_storey_map ([level1_rel] @ [broken_level_rel])" .
  have 2: "build_storey_map ([level1_rel] @ broken_level_rel # [level2_rel]) 9 = Some ''Roof''"
    using t [where i = 9, THEN conjunct2, THEN mp, OF n] nm by (simp add: b)
  have 3: "build_storey_map ([level1_rel] @ broken_level_rel # [level2_rel]) 7 = Some ''Level 1''"
    using t [where i = 7, THEN conjunct2, THEN mp, OF n] l1 by (simp add: b)
  have 4: "build_storey_map ([level1_rel] @ broken_level_rel # [level2_rel]) 10 = None"
    using t [where i = 10, THEN conjunct2, THEN mp, OF n] l10 by (simp add: b)
  show ?thesis
    by (intro conjI) (rule r, rule 1, rule n, rule 2, rule 3, rule 4)
qed

lemma storey_loop_last_write:
  assumes "\<not> raises (pre @ [RelContained (Some storey) elements]) Map.empty"
    and "ElementRef i \<in> set (related_elements elements)"
    and "\<forall>r \<in> set post. \<not> assigns r i"
  shows "build_storey_map (pre @ RelContained (Some storey) elements # post) i
      = Some (storey_name_of storey)"
proof -
  let ?r = "RelContained (Some storey) elements"
  obtain m where pre: "storey_loop pre Map.empty = (m, None)"
    using assms(1)
    by (cases "storey_loop pre Map.empty")
      (auto simp: raises_def storey_loop_append split: option.splits)
  obtain m' where a: "assign_elements (related_elements elements) (storey_name_of storey) m
      = (m', None)"
    using assms(1) pre
    by (cases "assign_elements (related_elements elements) (storey_name_of storey) m")
      (auto simp: raises_def storey_loop_append split: option.splits)
  with assign_elements_listed [of "related_elements elements" "storey_name_of storey" m i]
    assms(2)
  have "m' i = Some (storey_name_of storey)" by simp
  moreover have "storey_loop (pre @ ?r # post) Map.empty = storey_loop post m'"
    using pre a by (simp add: storey_loop_append)
  ultimately show ?thesis
    using storey_loop_unassigned [OF assms(3), of m']
    by (simp add: build_storey_map_def)
qed

text \<open>
  C7. When an element id is listed in several containment relations, the name of the
  storey of the last of them is its floor: if the loop reaches the end of a relation
  that lists the id and has a storey, and no later relation assigns the id, the map
  holds that storey's name for it. An element that no relation assigns has the empty
  string as floor name in its assembled row.
\<close>

theorem storey_last_write_wins:
  "(\<not> raises (pre @ [RelContained (Some storey) elements]) Map.empty
      \<and> ElementRef (element_id element) \<in> set (related_elements elements)
      \<and> (\<forall>r \<in> set post. \<not> assigns r (element_id element)) \<longrightarrow>
      floor_name (extract_element_data fmt element
          (build_storey_map (pre @ RelContained (Some storey) elements # post)))
        = storey_name_of storey)
   \<and> ((\<forall>r \<in> set rels. \<not> assigns r (element_id element)) \<longrightarrow>
      floor_name (extract_element_data fmt element (build_storey_map rels)) = [])"
proof (intro conjI impI)
  assume "\<not> raises (pre @ [RelContained (Some storey) elements]) Map.empty
      \<and> ElementRef (element_id element) \<in> set (related_elements elements)
      \<and> (\<forall>r \<in> set post. \<not> assigns r (element_id element))"
  then have "build_storey_map (pre @ RelContained (Some storey) elements # post)
      (element_id element) = Some (storey_name_of storey)"
    by (simp add: storey_loop_last_write)
  then show "floor_name (extract_element_data fmt element
          (build_storey_map (pre @ RelContained (Some storey) elements # post)))
        = storey_name_of storey"
    by (simp add: text_fields_extract floor_of_def)
next
  assume "\<forall>r \<in> set rels. \<not> assigns r (element_id element)"
  then have "build_storey_map rels (element_id element) = None"
    by (simp add: build_storey_map_def storey_loop_unassigned)
  then show "floor_name (extract_element_data fmt element (build_storey_map rels)) = []"
    by (simp add: text_fields_extract floor_of_def)
qed

theorem storey_last_write_wins_witness:
  "\<not> raises ([level1_rel] @ [level2_rel]) Map.empty
   \<and> floor_name (extract_element_data example_format plain_element
        (build_storey_map ([level1_rel] @ level2_rel # []))) = ''Level 2''
   \<and> floor_name (extract_element_data example_format
        (plain_element\<lparr>element_id := 11\<rparr>) (build_storey_map [level1_rel, level2_rel])) = []"
proof -
  let ?s = "\<lparr>structure_Name = Some ''Level 2'', structure_LongName = None\<rparr>"
  let ?other = "plain_element\<lparr>element_id := 11\<rparr>"
  have l2: "level2_rel = RelContained (Some ?s) (Some [ElementRef 7])"
    by (simp add: level2_rel_def)
  have id7: "element_id plain_element = 7" and id11: "element_id ?other = 11"
    by (simp_all add: plain_element_def)
  have r: "\<not> raises ([level1_rel] @ [level2_rel]) Map.empty"
    by (simp add: raises_def level1_rel_def level2_rel_def related_elements_def)
  have nm: "storey_name_of ?s = ''Level 2''"
    by (simp add: storey_name_of_def or_else_def or_empty_def truthy_def)
  have listed: "ElementRef (element_id plain_element) \<in> set (related_elements (Some [ElementRef 7]))"
    by (simp add: id7 related_elements_def)
  have none: "\<forall>r \<in> set [level1_rel, level2_rel]. \<not> assigns r (element_id ?other)"
    by (simp add: id11 level1_rel_def level2_rel_def related_elements_def)
  note t1 = storey_last_write_wins [where pre = "[level1_rel]" and storey = ?s
      and elements = "Some [ElementRef 7]" and element = plain_element and post = "[]"
      and fmt = example_format and rels = "[]"]
  note t2 = storey_last_write_wins [where pre = "[]" and storey = ?s
      and elements = None and element = ?other and post = "[]"
      and fmt = example_format and rels = "[level1_rel, level2_rel]"]
  note r' = r [unfolded l2]
  from t1 [THEN conjunct1] r' listed nm
  have 1: "floor_name (extract_element_data example_format plain_element
        (build_storey_map ([level1_rel] @ level2_rel # []))) = ''Level 2''"
    by (simp add: l2)
  from t2 [THEN conjunct2, THEN mp, OF none]
  have 2: "floor_name (extract_element_data example_format ?other
        (build_storey_map [level1_rel, level2_rel])) = []" .
  show ?thesis
    by (intro conjI) (rule r, rule 1, rule 2)
qed


section \<open>Properties of SpatialTreeBuilder\<close>

lemma process_emitted:
  "process_spatial parse entity parent_id nodes = nodes @ emitted parse entity parent_id"
  "process_objects parse objects i nodes = nodes @ emitted_objects parse objects i"
  "process_relations parse rels i nodes = nodes @ emitted_relations parse rels i"
  by (induction parse entity parent_id nodes and parse objects i nodes and parse rels i nodes
      rule: process_spatial_process_objects_process_relations.induct) simp_all

lemma process_projects_emitted:
  "process_projects parse projects nodes
     = nodes @ concat (map (\<lambda>project. emitted parse (Some project) None) projects)"
  by (induction parse projects nodes rule: process_projects.induct) (simp_all add: process_emitted)

lemma build_spatial_tree_emitted:
  "build_spatial_tree parse projects
     = concat (map (\<lambda>project. emitted parse (Some project) None) projects)"
  by (simp add: build_spatial_tree_def process_projects_emitted)

lemma parents_known_mono: "parents_known S ns \<Longrightarrow> S \<subseteq> T \<Longrightarrow> parents_known T ns"
proof (induction ns arbitrary: S T)
  case (Cons n ns)
  from Cons.prems have "parents_known (insert (node_express_id n) S) ns"
    and "insert (node_express_id n) S \<subseteq> insert (node_express_id n) T"
    by auto
  then have "parents_known (insert (node_express_id n) T) ns" by (rule Cons.IH)
  with Cons.prems show ?case by (auto split: option.splits)
qed simp

lemma parents_known_append:
  "parents_known S (xs @ ys) \<longleftrightarrow>
     parents_known S xs \<and> parents_known (S \<union> node_express_id ` set xs) ys"
proof (induction xs arbitrary: S)
  case (Cons n xs)
  have "insert (node_express_id n) S \<union> node_express_id ` set xs
      = S \<union> node_express_id ` set (n # xs)"
    by auto
  with Cons [of "insert (node_express_id n) S"] show ?case by simp
qed simp

lemma emitted_parents_known:
  "(\<forall>q. parent_id = Some q \<longrightarrow> q \<in> S) \<Longrightarrow> parents_known S (emitted parse entity parent_id)"
  "i \<in> S \<Longrightarrow> parents_known S (emitted_objects parse objects i)"
  "i \<in> S \<Longrightarrow> parents_known S (emitted_relations parse rels i)"
proof (induction parse entity parent_id and parse objects i and parse rels i
    arbitrary: S and S and S rule: emitted_emitted_objects_emitted_relations.induct)
  case (2 parse i tag nm long_nm elev contains decomposed parent_id)
  then show ?case by (auto simp: make_node_def split: option.splits)
next
  case (4 parse child rest i)
  from "4.prems" have "parents_known S (emitted parse child (Some i))"
    by (intro "4.IH"(1)) simp
  moreover from "4.prems"
  have "parents_known (S \<union> node_express_id ` set (emitted parse child (Some i)))
      (emitted_objects parse rest i)"
    by (intro "4.IH"(2)) simp
  ultimately show ?case by (simp add: parents_known_append)
next
  case (6 parse rel rest i)
  from "6.prems" have "parents_known S (emitted_objects parse rel i)"
    by (rule "6.IH"(1))
  moreover from "6.prems"
  have "parents_known (S \<union> node_express_id ` set (emitted_objects parse rel i))
      (emitted_relations parse rest i)"
    by (intro "6.IH"(2)) simp
  ultimately show ?case by (simp add: parents_known_append)
qed simp_all

lemma projects_parents_known:
  "parents_known S (concat (map (\<lambda>project. emitted parse (Some project) None) projects))"
proof (induction projects arbitrary: S)
  case (Cons project projects)
  have "parents_known S (emitted parse (Some project) None)"
    by (rule emitted_parents_known) simp
  with Cons show ?case by (simp add: parents_known_append)
qed simp

lemma parents_known_nth:
  "parents_known S ns \<Longrightarrow> j < length ns \<Longrightarrow> parent_express_id (ns ! j) = Some q \<Longrightarrow>
     q \<in> S \<or> (\<exists>i<j. node_express_id (ns ! i) = q)"
proof (induction ns arbitrary: S j)
  case (Cons n ns)
  show ?case
  proof (cases j)
    case 0
    with Cons.prems show ?thesis by simp
  next
    case (Suc k)
    with Cons.prems have "parents_known (insert (node_express_id n) S) ns"
      and "k < length ns" and "parent_express_id (ns ! k) = Some q"
      by simp_all
    from Cons.IH [OF this]
    consider "q = node_express_id n" | "q \<in> S" | "\<exists>i<k. node_express_id (ns ! i) = q"
      by auto
    then show ?thesis
    proof cases
      case 1
      then have "node_express_id ((n # ns) ! 0) = q" by simp
      with Suc show ?thesis by blast
    next
      case 2
      then show ?thesis by simp
    next
      case 3
      then obtain i where "i < k" and "node_express_id ((n # ns) ! Suc i) = q" by auto
      with Suc have "Suc i < j \<and> node_express_id ((n # ns) ! Suc i) = q" by simp
      then show ?thesis by blast
    qed
  qed
qed simp

lemma parent_edges_simps:
  "parent_edges [] = {}"
  "parent_edges (n # ns) =
     (case parent_express_id n of None \<Rightarrow> {} | Some q \<Rightarrow> {(node_express_id n, q)}) \<union> parent_edges ns"
  "parent_edges (xs @ ys) = parent_edges xs \<union> parent_edges ys"
  by (auto simp: parent_edges_def split: option.splits)

lemma emitted_parent_edges:
  "parent_edges (emitted parse entity parent_id)
     \<subseteq> (case entity of None \<Rightarrow> {} | Some e \<Rightarrow>
          (case parent_id of None \<Rightarrow> {} | Some q \<Rightarrow> {(entity_id e, q)}))
        \<union> set (entity_edges entity)"
  "parent_edges (emitted_objects parse objects i) \<subseteq> set (objects_edges objects i)"
  "parent_edges (emitted_relations parse rels i) \<subseteq> set (relations_edges rels i)"
proof (induction parse entity parent_id and parse objects i and parse rels i
    rule: emitted_emitted_objects_emitted_relations.induct)
  case (2 parse i tag nm long_nm elev contains decomposed parent_id)
  then show ?case
    by (auto simp: parent_edges_simps make_node_def split: option.splits)
next
  case (4 parse child rest i)
  then show ?case
    by (cases child) (auto simp: parent_edges_simps)
next
  case (6 parse rel rest i)
  then show ?case by (auto simp: parent_edges_simps)
qed (simp_all add: parent_edges_simps)

lemma build_parent_edges:
  "parent_edges (build_spatial_tree parse projects) \<subseteq> decomposition_edges projects"
proof -
  have "parent_edges (concat (map (\<lambda>project. emitted parse (Some project) None) projects))
      \<subseteq> set (concat (map (\<lambda>p. entity_edges (Some p)) projects))"
  proof (induction projects)
    case (Cons project projects)
    have "parent_edges (emitted parse (Some project) None) \<subseteq> set (entity_edges (Some project))"
      using emitted_parent_edges(1) [of parse "Some project" None] by simp
    with Cons show ?case by (auto simp: parent_edges_simps)
  qed (simp add: parent_edges_simps)
  then show ?thesis
    by (simp add: build_spatial_tree_emitted decomposition_edges_def)
qed

text \<open>
  C5. In the list of nodes that \<^verbatim>\<open>build_spatial_tree\<close> returns, every node with a parent
  id comes after a node with that id (so some node with that id is at or before it); and
  when the decomposition relations are acyclic, the parent ids of the nodes have no cycle:
  no node is its own ancestor.
\<close>

theorem spatial_nodes_forest:
  "(\<forall>j < length (build_spatial_tree parse projects). \<forall>q.
       parent_express_id (build_spatial_tree parse projects ! j) = Some q \<longrightarrow>
       (\<exists>i<j. node_express_id (build_spatial_tree parse projects ! i) = q))
   \<and> (acyclic (decomposition_edges projects) \<longrightarrow>
        acyclic (parent_edges (build_spatial_tree parse projects))
        \<and> (\<forall>n \<in> set (build_spatial_tree parse projects).
             (node_express_id n, node_express_id n)
               \<notin> (parent_edges (build_spatial_tree parse projects))\<^sup>+))"
proof (intro conjI impI allI)
  fix j q
  assume "j < length (build_spatial_tree parse projects)"
    and "parent_express_id (build_spatial_tree parse projects ! j) = Some q"
  moreover have "parents_known {} (build_spatial_tree parse projects)"
    by (simp add: build_spatial_tree_emitted projects_parents_known)
  ultimately show "\<exists>i<j. node_express_id (build_spatial_tree parse projects ! i) = q"
    using parents_known_nth [of "{}" "build_spatial_tree parse projects" j q] by simp
next
  assume "acyclic (decomposition_edges projects)"
  then show a: "acyclic (parent_edges (build_spatial_tree parse projects))"
    using build_parent_edges by (rule acyclic_subset)
  then show "\<forall>n \<in> set (build_spatial_tree parse projects).
      (node_express_id n, node_express_id n) \<notin> (parent_edges (build_spatial_tree parse projects))\<^sup>+"
    by (simp add: acyclic_def)
qed

lemma example_nodes:
  "build_spatial_tree example_parse [example_project] =
     [make_node example_parse example_project None,
      make_node example_parse example_site (Some 1),
      make_node example_parse example_building (Some 2),
      make_node example_parse example_storey (Some 3)]"
  by (simp add: build_spatial_tree_emitted example_project_def example_site_def
      example_building_def example_storey_def SPATIAL_TYPES_def)

theorem spatial_nodes_forest_witness:
  "acyclic (decomposition_edges [example_project])
   \<and> acyclic (parent_edges (build_spatial_tree example_parse [example_project]))
   \<and> 3 < length (build_spatial_tree example_parse [example_project])
   \<and> parent_express_id (build_spatial_tree example_parse [example_project] ! 3) = Some 3
   \<and> (\<exists>i<3. node_express_id (build_spatial_tree example_parse [example_project] ! i) = 3)
   \<and> elevation (build_spatial_tree example_parse [example_project] ! 3) = Some 3.5
   \<and> element_count (build_spatial_tree example_parse [example_project] ! 3) = 2"
proof -
  let ?nodes = "build_spatial_tree example_parse [example_project]"
  have "decomposition_edges [example_project] = {(2, 1), (3, 2), (4, 3)}"
    by (auto simp: decomposition_edges_def example_project_def example_site_def
        example_building_def example_storey_def)
  moreover have "acyclic ({} :: (int \<times> int) set)"
    by (simp add: acyclic_def)
  ultimately have a: "acyclic (decomposition_edges [example_project])"
    by (simp add: rtrancl_insert)
  have l: "3 < length ?nodes"
    by (simp add: example_nodes)
  have p: "parent_express_id (?nodes ! 3) = Some 3"
    by (simp add: example_nodes make_node_def)
  have e: "elevation (?nodes ! 3) = Some 3.5"
    by (simp add: example_nodes make_node_def example_storey_def read_elevation_def
        example_parse_def)
  have c: "element_count (?nodes ! 3) = 2"
    by (simp add: example_nodes make_node_def example_storey_def related_elements_def)
  note t = spatial_nodes_forest [of example_parse "[example_project]"]
  from t [THEN conjunct2, THEN mp, OF a] have b: "acyclic (parent_edges ?nodes)"
    by (rule conjunct1)
  from t [THEN conjunct1] l p
  have x: "\<exists>i<3. node_express_id (?nodes ! i) = 3"
    by blast
  show ?thesis
    by (intro conjI) (rule a, rule b, rule l, rule p, rule x, rule e, rule c)
qed

lemma emitted_elevation:
  "\<forall>n \<in> set (emitted parse entity parent_id).
     elevation n \<noteq> None \<longrightarrow> node_ifc_type n = ''IfcBuildingStorey''"
  "\<forall>n \<in> set (emitted_objects parse objects i).
     elevation n \<noteq> None \<longrightarrow> node_ifc_type n = ''IfcBuildingStorey''"
  "\<forall>n \<in> set (emitted_relations parse rels i).
     elevation n \<noteq> None \<longrightarrow> node_ifc_type n = ''IfcBuildingStorey''"
proof (induction parse entity parent_id and parse objects i and parse rels i
    rule: emitted_emitted_objects_emitted_relations.induct)
  case (2 parse i tag nm long_nm elev contains decomposed parent_id)
  then show ?case
    by (auto simp: make_node_def read_elevation_def split: if_splits)
qed auto

text \<open>
  C6. An entity whose type tag is not one of project, site, building, storey, space adds
  nothing to the list of nodes: no node for it and none for what it is decomposed into.
  Only a storey node carries an elevation. A storey whose elevation does not read as a
  number gets its node, with no elevation, and the traversal goes on into its
  decomposition.
\<close>

theorem spatial_skip_and_elevation:
  "(entity_is_a entity \<notin> set SPATIAL_TYPES \<longrightarrow>
      process_spatial parse (Some entity) parent_id nodes = nodes)
   \<and> (\<forall>n \<in> set (build_spatial_tree parse projects).
        elevation n \<noteq> None \<longrightarrow> node_ifc_type n = ''IfcBuildingStorey'')
   \<and> (entity_is_a entity = ''IfcBuildingStorey''
        \<and> py_float parse (entity_Elevation entity) = None \<longrightarrow>
      elevation (make_node parse entity parent_id) = None
      \<and> process_spatial parse (Some entity) parent_id nodes
          = process_relations parse (IsDecomposedBy entity) (entity_id entity)
              (nodes @ [make_node parse entity parent_id]))"
proof (intro conjI impI)
  assume "entity_is_a entity \<notin> set SPATIAL_TYPES"
  then show "process_spatial parse (Some entity) parent_id nodes = nodes"
    by (cases entity) simp
next
  have "\<forall>n \<in> set (concat (map (\<lambda>project. emitted parse (Some project) None) projects)).
      elevation n \<noteq> None \<longrightarrow> node_ifc_type n = ''IfcBuildingStorey''"
    using emitted_elevation(1) [of parse] by auto
  then show "\<forall>n \<in> set (build_spatial_tree parse projects).
      elevation n \<noteq> None \<longrightarrow> node_ifc_type n = ''IfcBuildingStorey''"
    by (simp only: build_spatial_tree_emitted)
next
  assume a: "entity_is_a entity = ''IfcBuildingStorey''
    \<and> py_float parse (entity_Elevation entity) = None"
  then show "elevation (make_node parse entity parent_id) = None"
    by (simp add: make_node_def read_elevation_def)
  from a show "process_spatial parse (Some entity) parent_id nodes
      = process_relations parse (IsDecomposedBy entity) (entity_id entity)
          (nodes @ [make_node parse entity parent_id])"
    by (cases entity) (simp add: SPATIAL_TYPES_def)
qed

theorem spatial_skip_and_elevation_witness:
  "entity_is_a annotation_group \<notin> set SPATIAL_TYPES
   \<and> process_spatial example_parse (Some annotation_group) (Some 1) [] = []
   \<and> entity_is_a annotated_storey = ''IfcBuildingStorey''
   \<and> py_float example_parse (entity_Elevation annotated_storey) = None
   \<and> map elevation (process_spatial example_parse (Some annotated_storey) (Some 3) []) = [None, None]
   \<and> map node_express_id (process_spatial example_parse (Some annotated_storey) (Some 3) []) = [5, 6]
   \<and> make_node example_parse example_storey (Some 3)
        \<in> set (build_spatial_tree example_parse [example_project])
   \<and> node_ifc_type (make_node example_parse example_storey (Some 3)) = ''IfcBuildingStorey''"
proof -
  note t = spatial_skip_and_elevation [where parse = example_parse and nodes = "[]"
      and projects = "[example_project]"]
  have g: "entity_is_a annotation_group \<notin> set SPATIAL_TYPES"
    by (simp add: annotation_group_def SPATIAL_TYPES_def)
  from t [where entity = annotation_group and parent_id = "Some 1", THEN conjunct1, THEN mp, OF g]
  have 1: "process_spatial example_parse (Some annotation_group) (Some 1) [] = []" .
  have s: "entity_is_a annotated_storey = ''IfcBuildingStorey''"
    by (simp add: annotated_storey_def)
  have f: "py_float example_parse (entity_Elevation annotated_storey) = None"
    by (simp add: annotated_storey_def example_parse_def)
  from t [where entity = annotated_storey and parent_id = "Some 3", THEN conjunct2, THEN conjunct2,
      THEN mp, OF conjI [OF s f]]
  have n: "elevation (make_node example_parse annotated_storey (Some 3)) = None"
    and p: "process_spatial example_parse (Some annotated_storey) (Some 3) []
      = process_relations example_parse (IsDecomposedBy annotated_storey)
          (entity_id annotated_storey) ([] @ [make_node example_parse annotated_storey (Some 3)])"
    by simp_all
  from p have p': "process_spatial example_parse (Some annotated_storey) (Some 3) []
      = process_relations example_parse (IsDecomposedBy annotated_storey)
          (entity_id annotated_storey) [make_node example_parse annotated_storey (Some 3)]"
    by simp
  have d: "process_relations example_parse (IsDecomposedBy annotated_storey)
      (entity_id annotated_storey) [make_node example_parse annotated_storey (Some 3)]
      = [make_node example_parse annotated_storey (Some 3),
         make_node example_parse (SpatialEntity 6 ''IfcSpace'' (Some ''Plant room'') None (RFloat 9) [] [])
           (Some 5)]"
    by (simp add: annotated_storey_def SPATIAL_TYPES_def)
  have 2: "map elevation (process_spatial example_parse (Some annotated_storey) (Some 3) [])
      = [None, None]"
    by (simp only: p' d list.map n) (simp add: make_node_def read_elevation_def)
  have 3: "map node_express_id (process_spatial example_parse (Some annotated_storey) (Some 3) [])
      = [5, 6]"
    by (simp only: p' d list.map) (simp add: make_node_def annotated_storey_def)
  have m: "make_node example_parse example_storey (Some 3)
      \<in> set (build_spatial_tree example_parse [example_project])"
    by (simp add: example_nodes)
  have el: "elevation (make_node example_parse example_storey (Some 3)) \<noteq> None"
    by (simp add: make_node_def example_storey_def read_elevation_def example_parse_def)
  from t [where entity = annotated_storey and parent_id = None, THEN conjunct2, THEN conjunct1,
      THEN bspec, OF m, THEN mp, OF el]
  have 4: "node_ifc_type (make_node example_parse example_storey (Some 3)) = ''IfcBuildingStorey''" .
  show ?thesis
    by (intro conjI) (rule g, rule 1, rule s, rule f, rule 2, rule 3, rule m, rule 4)
qed


end
